theory Spec2Isabelle
  imports Complex_Main
begin

section \<open>The face-recognition time clock (timeclock-handler.js)\<close>

text \<open>
  The page script keeps its workflow in closure variables and DOM elements, and each
  \<^verbatim>\<open>async\<close> function runs in segments separated by its \<^verbatim>\<open>await\<close>s. The
  model is a record of those variables and elements, and one function per segment: the
  segment that ends in an \<^verbatim>\<open>await\<close> appends the call it issues to \<open>requests\<close>, the
  next segment takes the answer as its argument. Between two segments any other handler
  may run, as in the browser's event loop.

  Numbers are exact: times are integer milliseconds, confidences are rationals, the
  literal \<^verbatim>\<open>0.3\<close> is \<open>3/10\<close>. \<^verbatim>\<open>NaN\<close> is \<open>None\<close>.
\<close>

subsection \<open>Dates and the HH:MM fields\<close>

type_synonym jsnum = "int option"

datatype jsdate = Date int | InvalidDate

text \<open>
  A \<open>Date t\<close> holds the local time value \<open>t\<close> in milliseconds (the epoch value shifted
  by the zone offset of the device, taken as constant over the days concerned).
\<close>

definition msPerMinute :: int where
  "msPerMinute = 60000"

definition msPerHour :: int where
  "msPerHour = 3600000"

definition msPerDay :: int where
  "msPerDay = 86400000"

text \<open>\<^verbatim>\<open>new Date(now.getFullYear(), now.getMonth(), now.getDate())\<close>: local midnight.\<close>

definition midnight :: "int \<Rightarrow> int" where
  "midnight t = t - t mod msPerDay"

text \<open>\<^verbatim>\<open>d.setHours(h, m, 0, 0)\<close>: the day of \<open>d\<close>, the time of day made from \<open>h\<close>
  and \<open>m\<close>, which may lie outside 0..23 and 0..59 and then carry over.\<close>

fun setHours :: "jsdate \<Rightarrow> jsnum \<Rightarrow> jsnum \<Rightarrow> jsdate" where
  "setHours (Date t) (Some h) (Some m) = Date (midnight t + h * msPerHour + m * msPerMinute)"
| "setHours _ _ _ = InvalidDate"

text \<open>\<^verbatim>\<open>d.setDate(d.getDate() + 1)\<close>: the same time of day, one day later.\<close>

fun setDate_next :: "jsdate \<Rightarrow> jsdate" where
  "setDate_next (Date t) = Date (t + msPerDay)"
| "setDate_next InvalidDate = InvalidDate"

text \<open>Arithmetic and comparison of numbers, with \<^verbatim>\<open>NaN\<close>.\<close>

fun js_add :: "jsnum \<Rightarrow> int \<Rightarrow> jsnum" where
  "js_add (Some a) b = Some (a + b)"
| "js_add None b = None"

fun js_lt :: "jsnum \<Rightarrow> jsnum \<Rightarrow> bool" where
  "js_lt (Some a) (Some b) = (a < b)"
| "js_lt _ _ = False"

fun js_eq :: "jsnum \<Rightarrow> jsnum \<Rightarrow> bool" where
  "js_eq (Some a) (Some b) = (a = b)"
| "js_eq _ _ = False"

text \<open>\<^verbatim>\<open>now >= d\<close> and \<^verbatim>\<open>now <= d\<close> for the valid date \<open>now\<close>.\<close>

fun date_ge :: "int \<Rightarrow> jsdate \<Rightarrow> bool" where
  "date_ge now (Date t) = (now \<ge> t)"
| "date_ge now InvalidDate = False"

fun date_le :: "int \<Rightarrow> jsdate \<Rightarrow> bool" where
  "date_le now (Date t) = (now \<le> t)"
| "date_le now InvalidDate = False"

text \<open>\<^verbatim>\<open>s.split(':')\<close>: always at least one piece.\<close>

fun split_colon :: "string \<Rightarrow> string list" where
  "split_colon [] = [[]]"
| "split_colon (c # cs) =
     (if c = CHR '':'' then [] # split_colon cs
      else (case split_colon cs of
              [] \<Rightarrow> [[c]]
            | p # ps \<Rightarrow> (c # p) # ps))"

text \<open>
  \<^verbatim>\<open>Number(s)\<close> on the strings an HH:MM field is made of: a string of decimal digits
  is its value, the empty string is 0. Every other string is taken to \<^verbatim>\<open>NaN\<close> here
  (JavaScript also reads signs, fractions, exponents and surrounding blanks, which a
  time field of the store form does not hold).
\<close>

definition digit :: "char \<Rightarrow> nat option" where
  "digit c = (let n = (of_char c :: nat) in if 48 \<le> n \<and> n \<le> 57 then Some (n - 48) else None)"

fun digits :: "nat \<Rightarrow> string \<Rightarrow> nat option" where
  "digits acc [] = Some acc"
| "digits acc (c # cs) =
     (case digit c of None \<Rightarrow> None | Some d \<Rightarrow> digits (10 * acc + d) cs)"

definition Number :: "string \<Rightarrow> jsnum" where
  "Number s = map_option int (digits 0 s)"

text \<open>\<^verbatim>\<open>const [hour, min] = t.split(':').map(Number)\<close>; a missing second piece is
  \<^verbatim>\<open>undefined\<close>, which the arithmetic and the comparisons below turn into \<^verbatim>\<open>NaN\<close>.\<close>

definition hour_min :: "string \<Rightarrow> jsnum \<times> jsnum" where
  "hour_min t =
     (case map Number (split_colon t) of
        [] \<Rightarrow> (None, None)
      | [h] \<Rightarrow> (h, None)
      | h # m # _ \<Rightarrow> (h, m))"

subsection \<open>Store hours and the clock window\<close>

record store =
  name :: string
  opening_time :: "string option"
  closing_time :: "string option"
  timezone :: "string option"

record hours =
  hours_opening_time :: string
  hours_closing_time :: string
  hours_timezone :: string

text \<open>\<^verbatim>\<open>stores.find(s => s.name === storeId)\<close>\<close>

fun find_store :: "store list \<Rightarrow> string \<Rightarrow> store option" where
  "find_store [] sid = None"
| "find_store (s # ss) sid = (if name s = sid then Some s else find_store ss sid)"

text \<open>The window of lines 136 to 154, from the two fields and the time of the call.\<close>

definition clockWindow :: "int \<Rightarrow> string \<Rightarrow> string \<Rightarrow> jsdate \<times> jsdate" where
  "clockWindow now opening closing =
     (let (openHour, openMin) = hour_min opening;
          (closeHour, closeMin) = hour_min closing;
          today = Date (midnight now);
          clockWindowStart = setHours today openHour (js_add openMin (- 30));
          clockWindowEnd = setHours today closeHour (js_add closeMin 30)
      in if js_lt closeHour openHour \<or> (js_eq closeHour openHour \<and> js_lt closeMin openMin)
         then (clockWindowStart, setDate_next clockWindowEnd)
         else (clockWindowStart, clockWindowEnd))"

subsection \<open>What the page holds\<close>

datatype action = ClockIn | ClockOut

type_synonym descriptor = "rat list"

record captured =
  descriptor :: descriptor
  imageDataUrl :: string

record employee =
  employee_name :: string
  confidence :: "rat option"

text \<open>What \<^verbatim>\<open>captureFaceFromVideo\<close>, \<^verbatim>\<open>recognizeFace\<close> and an \<^verbatim>\<open>apiGet\<close> or
  \<^verbatim>\<open>apiPost\<close> hand back: \<^verbatim>\<open>{success: true, ...}\<close> or \<^verbatim>\<open>{success: false, error}\<close>,
  a value or an exception.\<close>

datatype capture = Captured descriptor string | CaptureFailed string

datatype recognition = Recognized employee | NotRecognized string

datatype 'a response = Returned 'a | Threw string


record clocked =
  clocked_employee_name :: string
  auto_clockout :: bool
  message :: "string option"
  clock_in_time :: "string option"
  clock_out_time :: "string option"
  hours_worked :: "rat option"

record metadata =
  window_start :: "string option"
  window_end :: "string option"

text \<open>The \<^verbatim>\<open>result\<close> of \<^verbatim>\<open>confirmAndProcess\<close>: the answer of \<^verbatim>\<open>clockInWithFace\<close> or
  \<^verbatim>\<open>clockOutWithFace\<close>, or \<^verbatim>\<open>undefined\<close> when \<^verbatim>\<open>currentAction\<close> is neither.\<close>

datatype submission =
    Accepted clocked
  | Rejected "string option" "string option" "metadata option"
  | Undefined

datatype request =
    GetUserMedia
  | LoadFaceApiModels
  | CaptureFaceFromVideo
  | RecognizeFace descriptor string
  | AddAppearance string descriptor string
  | ClockInWithFace descriptor string string
  | ClockOutWithFace descriptor string string
  | GetStores
  | FetchCurrentClockStatusTimer

datatype status =
    StatusUnset
  | ClockAllowed jsdate jsdate
  | ClockAllowedFrom jsdate jsdate
  | PositionYourFace "action option"
  | LoadingModels
  | ReadyPosition
  | ReadyToClock
  | DetectingFace
  | RecognizingFace
  | ContactManagerToRegister
  | FaceRecognizedAs string
  | CannotProceed
  | AddingAppearance
  | RetryingRecognition
  | StillContactManager
  | StillRetakePhoto
  | VerifyingRecognition
  | Processing
  | Successfully bool
  | Failed string

datatype panel =
    PanelUnset
  | LowConfidenceMatch string rat
  | FaceRecognized string rat
  | FaceNotRecognized string
  | StillLowConfidence rat
  | StillNotRecognized

datatype title = StoreHoursRestriction | ErrorTitle

datatype dialog =
    CameraFailed string
  | ModelsFailed
  | DetectionFailed string
  | EnterYourName
  | NoFaceDataRetake
  | AppearanceAdded nat
  | AddAppearanceFailed string
  | NoFaceData
  | VerificationFailed
  | AutoClockedOut string
  | ClockedSuccessfully bool clocked
  | ClockFailed bool string "(string \<times> string) option" title

text \<open>
  The closure variables of the handler (lines 15, 37, 38, 118 to 120), the properties of
  the page's elements that the handler writes, and two logs: the calls issued and the
  dialogs shown. \<open>addAppearanceBtn\<close> says whether the page holds an element of that
  id (the markup is not part of the sources); \<open>thrown\<close> counts exceptions that leave a
  handler. The colour argument of \<^verbatim>\<open>updateStatus\<close> is left out, and every other
  element the handler looks up is taken to exist.
\<close>

record gate =
  storeId :: string
  currentAction :: "action option"
  capturedData :: "captured option"
  storeHours :: "hours option"
  clockWindowStart :: "jsdate option"
  clockWindowEnd :: "jsdate option"
  srcObject :: bool
  cameraContainer :: bool
  photoPreview :: bool
  clockButtons :: bool
  capturedPhoto :: "string option"
  confirmPhotoBtn_disabled :: bool
  clockInBtn_disabled :: bool
  clockOutBtn_disabled :: bool
  loadingIndicator :: bool
  statusText :: status
  recognitionResult :: panel
  addAppearanceBtn :: bool
  addAppearance_listeners :: nat
  requests :: "request list"
  dialogs :: "dialog list"
  thrown :: nat

definition issue :: "request \<Rightarrow> gate \<Rightarrow> gate" where
  "issue r s = s\<lparr>requests := requests s @ [r]\<rparr>"

definition showDialog :: "dialog \<Rightarrow> gate \<Rightarrow> gate" where
  "showDialog d s = s\<lparr>dialogs := dialogs s @ [d]\<rparr>"

definition showLoading :: "bool \<Rightarrow> gate \<Rightarrow> gate" where
  "showLoading show s = s\<lparr>loadingIndicator := show\<rparr>"

definition updateStatus :: "status \<Rightarrow> gate \<Rightarrow> gate" where
  "updateStatus text s = s\<lparr>statusText := text\<rparr>"

text \<open>\<^verbatim>\<open>a || b\<close> on a string that may be missing or empty.\<close>

fun or_else :: "string option \<Rightarrow> string \<Rightarrow> string" where
  "or_else None d = d"
| "or_else (Some s) d = (if s = [] then d else s)"

subsection \<open>Store hours\<close>

definition set_buttons :: "bool \<Rightarrow> gate \<Rightarrow> gate" where
  "set_buttons off s = s\<lparr>clockInBtn_disabled := off, clockOutBtn_disabled := off\<rparr>"

definition updateClockButtonsState :: "int \<Rightarrow> gate \<Rightarrow> gate" where
  "updateClockButtonsState now s =
     (case (storeHours s, clockWindowStart s, clockWindowEnd s) of
        (Some h, Some ws, Some we) \<Rightarrow>
          if date_ge now ws \<and> date_le now we
          then updateStatus (ClockAllowed ws we) (set_buttons False s)
          else updateStatus (ClockAllowedFrom ws we) (set_buttons True s)
      | _ \<Rightarrow> set_buttons False s)"

text \<open>\<^verbatim>\<open>fetchStoreHours\<close> up to its \<^verbatim>\<open>await apiGet("/stores/")\<close>.\<close>

definition fetchStoreHours :: "gate \<Rightarrow> gate" where
  "fetchStoreHours s = issue GetStores s"

text \<open>The condition \<^verbatim>\<open>currentStore && currentStore.opening_time &&
  currentStore.closing_time\<close> of line 129, with the two fields when it holds.\<close>

fun configured :: "store option \<Rightarrow> (store \<times> string \<times> string) option" where
  "configured (Some st) =
     (case (opening_time st, closing_time st) of
        (Some opening, Some closing) \<Rightarrow>
          if opening \<noteq> [] \<and> closing \<noteq> [] then Some (st, opening, closing) else None
      | _ \<Rightarrow> None)"
| "configured None = None"

text \<open>The rest of \<^verbatim>\<open>fetchStoreHours\<close>, on the answer. \<open>now\<close> is the clock at line 140
  and \<open>now'\<close> the clock when \<^verbatim>\<open>updateClockButtonsState\<close> reads it.\<close>

definition fetchStoreHours_loaded :: "int \<Rightarrow> int \<Rightarrow> store list response \<Rightarrow> gate \<Rightarrow> gate" where
  "fetchStoreHours_loaded now now' resp s =
     (case resp of
        Threw e \<Rightarrow> updateClockButtonsState now' (s\<lparr>storeHours := None\<rparr>)
      | Returned stores \<Rightarrow>
          (case configured (find_store stores (storeId s)) of
             Some (currentStore, opening, closing) \<Rightarrow>
               (let (ws, we) = clockWindow now opening closing
                in updateClockButtonsState now'
                     (s\<lparr>storeHours := Some \<lparr>hours_opening_time = opening,
                                             hours_closing_time = closing,
                                             hours_timezone = or_else (timezone currentStore) ''UTC''\<rparr>,
                        clockWindowStart := Some ws,
                        clockWindowEnd := Some we\<rparr>))
           | None \<Rightarrow>
               updateClockButtonsState now'
                 (s\<lparr>storeHours := None, clockWindowStart := None, clockWindowEnd := None\<rparr>)))"

text \<open>Reading a window: \<open>hhmm h m\<close> says that \<open>h\<close> and \<open>m\<close> are an hour and a minute
  of the 24-hour clock, \<open>wall day h m\<close> is the time \<open>h:m\<close> of the day that starts at
  \<open>day\<close>.\<close>

definition hhmm :: "int \<Rightarrow> int \<Rightarrow> bool" where
  "hhmm h m = (0 \<le> h \<and> h < 24 \<and> 0 \<le> m \<and> m < 60)"

definition wall :: "int \<Rightarrow> int \<Rightarrow> int \<Rightarrow> int" where
  "wall day h m = day + h * msPerHour + m * msPerMinute"

subsection \<open>The camera\<close>

datatype camera = Stream | CameraError string

text \<open>\<^verbatim>\<open>hideCamera\<close>, which is also the handler of the cancel button.\<close>

definition hideCamera :: "gate \<Rightarrow> gate" where
  "hideCamera s =
     updateStatus ReadyToClock
       (s\<lparr>srcObject := False,
          cameraContainer := False,
          photoPreview := False,
          clockButtons := True,
          confirmPhotoBtn_disabled := False,
          currentAction := None,
          capturedData := None\<rparr>)"

text \<open>\<^verbatim>\<open>showCamera\<close> in its three segments: up to \<^verbatim>\<open>await initializeCamera(video)\<close>
  (which sets \<^verbatim>\<open>video.srcObject\<close> when it succeeds), up to
  \<^verbatim>\<open>await loadFaceApiModels()\<close>, and the rest.\<close>

definition showCamera :: "action option \<Rightarrow> gate \<Rightarrow> gate" where
  "showCamera action s =
     issue GetUserMedia
       (updateStatus (PositionYourFace action)
          (s\<lparr>currentAction := action,
             clockButtons := False,
             photoPreview := False,
             cameraContainer := True\<rparr>))"

definition showCamera_camera :: "camera \<Rightarrow> gate \<Rightarrow> gate" where
  "showCamera_camera result s =
     (case result of
        CameraError e \<Rightarrow> hideCamera (showDialog (CameraFailed e) s)
      | Stream \<Rightarrow>
          issue LoadFaceApiModels
            (updateStatus LoadingModels (showLoading True (s\<lparr>srcObject := True\<rparr>))))"

definition showCamera_models :: "bool \<Rightarrow> gate \<Rightarrow> gate" where
  "showCamera_models modelsLoaded s =
     (if \<not> modelsLoaded then hideCamera (showDialog ModelsFailed (showLoading False s))
      else updateStatus ReadyPosition (showLoading False s))"


subsection \<open>Capture and recognition\<close>

definition MIN_CONFIDENCE :: rat where
  "MIN_CONFIDENCE = 3 / 10"

text \<open>\<^verbatim>\<open>employee.confidence || 0\<close>: a missing confidence counts as 0.\<close>

fun or_zero :: "rat option \<Rightarrow> rat" where
  "or_zero None = 0"
| "or_zero (Some c) = c"

definition set_confirm :: "bool \<Rightarrow> gate \<Rightarrow> gate" where
  "set_confirm off s = s\<lparr>confirmPhotoBtn_disabled := off\<rparr>"

definition set_result :: "panel \<Rightarrow> gate \<Rightarrow> gate" where
  "set_result html s = s\<lparr>recognitionResult := html\<rparr>"

definition default_not_recognized :: string where
  "default_not_recognized =
     ''Face not recognized. You cannot clock in/out until your face is recognized.''"

text \<open>\<^verbatim>\<open>captureFace\<close> in its three segments: up to
  \<^verbatim>\<open>await captureFaceFromVideo(video)\<close>, up to \<^verbatim>\<open>await recognizeFace(...)\<close>, and the
  decision of lines 366 to 587. The local \<^verbatim>\<open>faceRecognized\<close> is written and never
  read; the listener is added in the branch of a failed recognition only.\<close>

definition captureFace :: "gate \<Rightarrow> gate" where
  "captureFace s = issue CaptureFaceFromVideo (updateStatus DetectingFace (showLoading True s))"

definition captureFace_captured :: "capture \<Rightarrow> gate \<Rightarrow> gate" where
  "captureFace_captured result s =
     (case result of
        CaptureFailed e \<Rightarrow> showDialog (DetectionFailed e) (showLoading False s)
      | Captured d img \<Rightarrow>
          issue (RecognizeFace d (storeId s))
            (showLoading True
              (updateStatus RecognizingFace
                (set_confirm True
                  ((showLoading False s)
                     \<lparr>capturedData := Some \<lparr>descriptor = d, imageDataUrl = img\<rparr>,
                      srcObject := False,
                      cameraContainer := False,
                      photoPreview := True,
                      capturedPhoto := Some img\<rparr>)))))"

definition captureFace_recognized :: "recognition \<Rightarrow> gate \<Rightarrow> gate" where
  "captureFace_recognized recognizeResult s =
     (case recognizeResult of
        Recognized employee \<Rightarrow>
          (let confidence = or_zero (confidence employee)
           in if confidence < MIN_CONFIDENCE
              then updateStatus ContactManagerToRegister
                     (set_result (LowConfidenceMatch (employee_name employee) confidence)
                        (set_confirm True (showLoading False s)))
              else updateStatus (FaceRecognizedAs (employee_name employee))
                     (set_confirm False
                        (set_result (FaceRecognized (employee_name employee) confidence)
                           (showLoading False s))))
      | NotRecognized e \<Rightarrow>
          updateStatus CannotProceed
            ((set_result (FaceNotRecognized (or_else (Some e) default_not_recognized))
                (set_confirm True (showLoading False s)))
               \<lparr>addAppearance_listeners :=
                  (if addAppearanceBtn s then Suc (addAppearance_listeners s)
                   else addAppearance_listeners s)\<rparr>))"

subsection \<open>Adding an appearance and recognising again\<close>




definition addAppearance_retried :: "recognition \<Rightarrow> gate \<Rightarrow> gate" where
  "addAppearance_retried retryResult s =
     (case retryResult of
        Recognized employee \<Rightarrow>
          (let confidence = or_zero (confidence employee)
           in if confidence < MIN_CONFIDENCE
              then updateStatus StillContactManager
                     (set_result (StillLowConfidence confidence)
                        (set_confirm True (showLoading False s)))
              else updateStatus (FaceRecognizedAs (employee_name employee))
                     (set_confirm False
                        (set_result (FaceRecognized (employee_name employee) confidence)
                           (showLoading False s))))
      | NotRecognized e \<Rightarrow>
          updateStatus StillRetakePhoto (set_result StillNotRecognized (showLoading False s)))"

subsection \<open>Confirming\<close>

text \<open>\<^verbatim>\<open>confirmAndProcess\<close> in its three segments: up to the verifying
  \<^verbatim>\<open>await recognizeFace(...)\<close>, up to \<^verbatim>\<open>await clockInWithFace(...)\<close> or
  \<^verbatim>\<open>await clockOutWithFace(...)\<close>, and the handling of the result. With no
  \<^verbatim>\<open>currentAction\<close> nothing is awaited and the result is \<^verbatim>\<open>undefined\<close>; with no
  \<^verbatim>\<open>capturedData\<close> left the second segment throws.\<close>

definition window_of :: "metadata option \<Rightarrow> (string \<times> string) option" where
  "window_of meta =
     (case meta of
        None \<Rightarrow> None
      | Some m \<Rightarrow>
          (case (window_start m, window_end m) of
             (Some a, Some b) \<Rightarrow> if a \<noteq> [] \<and> b \<noteq> [] then Some (a, b) else None
           | _ \<Rightarrow> None))"

definition title_of :: "string \<Rightarrow> title" where
  "title_of errorCode =
     (if errorCode = ''OUTSIDE_CLOCK_WINDOW'' \<or> errorCode = ''STORE_CLOSED_LOGIN''
      then StoreHoursRestriction else ErrorTitle)"

definition failed :: "string option \<Rightarrow> string option \<Rightarrow> metadata option \<Rightarrow> gate \<Rightarrow> gate" where
  "failed err code meta s =
     (let errorMsg = or_else err ''Failed to process clock action'';
          errorCode = or_else code ''UNKNOWN_ERROR''
      in fetchStoreHours
           (showDialog
              (ClockFailed (currentAction s = Some ClockIn) errorMsg (window_of meta)
                 (title_of errorCode))
              (updateStatus (Failed errorMsg) s)))"

definition confirmAndProcess_result :: "submission \<Rightarrow> gate \<Rightarrow> gate" where
  "confirmAndProcess_result result s =
     (case result of
        Accepted data \<Rightarrow>
          (let s1 = (if auto_clockout data
                     then showDialog
                            (AutoClockedOut
                               (or_else (message data)
                                  ''You were automatically clocked out at the store closing time.''))
                            (showLoading False s)
                     else showLoading False s)
           in issue FetchCurrentClockStatusTimer
                (hideCamera
                   (showDialog (ClockedSuccessfully (currentAction s = Some ClockIn) data)
                      (updateStatus (Successfully (currentAction s = Some ClockIn)) s1))))
      | Rejected err code meta \<Rightarrow> failed err code meta (showLoading False s)
      | Undefined \<Rightarrow> failed None None None (showLoading False s))"

definition confirmAndProcess_verified :: "recognition \<Rightarrow> gate \<Rightarrow> gate" where
  "confirmAndProcess_verified verifyResult s =
     (case verifyResult of
        NotRecognized e \<Rightarrow> showDialog VerificationFailed (showLoading False s)
      | Recognized employee \<Rightarrow>
          (case currentAction s of
             None \<Rightarrow> confirmAndProcess_result Undefined (updateStatus Processing s)
           | Some a \<Rightarrow>
               (case capturedData s of
                  None \<Rightarrow> (updateStatus Processing s)\<lparr>thrown := Suc (thrown s)\<rparr>
                | Some cd \<Rightarrow>
                    issue
                      (case a of
                         ClockIn \<Rightarrow> ClockInWithFace (descriptor cd) (imageDataUrl cd) (storeId s)
                       | ClockOut \<Rightarrow> ClockOutWithFace (descriptor cd) (imageDataUrl cd) (storeId s))
                      (updateStatus Processing s))))"

definition confirmAndProcess :: "gate \<Rightarrow> gate" where
  "confirmAndProcess s =
     (case capturedData s of
        None \<Rightarrow> showDialog NoFaceData s
      | Some cd \<Rightarrow>
          issue (RecognizeFace (descriptor cd) (storeId s))
            (updateStatus VerifyingRecognition (showLoading True s)))"

text \<open>A click on the confirm button: a disabled button dispatches no click.\<close>

definition confirmPhotoBtn_click :: "gate \<Rightarrow> gate" where
  "confirmPhotoBtn_click s = (if confirmPhotoBtn_disabled s then s else confirmAndProcess s)"

subsection \<open>The event loop\<close>







subsection \<open>States of the page\<close>


text \<open>The page of store \<open>sid\<close> before any handler has run.\<close>

definition page :: "string \<Rightarrow> gate" where
  "page sid =
     \<lparr>storeId = sid, currentAction = None, capturedData = None, storeHours = None,
      clockWindowStart = None, clockWindowEnd = None, srcObject = False,
      cameraContainer = False, photoPreview = False, clockButtons = True,
      capturedPhoto = None, confirmPhotoBtn_disabled = False, clockInBtn_disabled = False,
      clockOutBtn_disabled = False, loadingIndicator = False, statusText = StatusUnset,
      recognitionResult = PanelUnset, addAppearanceBtn = False, addAppearance_listeners = 0,
      requests = [], dialogs = [], thrown = 0\<rparr>"

text \<open>A store record for the examples.\<close>

definition shop :: "string option \<Rightarrow> string option \<Rightarrow> store" where
  "shop opening closing =
     \<lparr>name = ''Main Street'', opening_time = opening, closing_time = closing,
      timezone = Some ''America/Chicago''\<rparr>"

text \<open>A run of the page for the examples: the operator asks to clock in, the camera
  and the models load, a frame is taken (\<open>detecting\<close>), a face is found in it
  (\<open>recognizing\<close>), it is recognised with
  confidence 0.82 (\<open>confirmed\<close>), and the operator confirms (\<open>verifying\<close>).\<close>

definition face :: descriptor where
  "face = [1 / 8, - 3 / 4, 1 / 2]"

definition photo :: string where
  "photo = ''data:image/jpeg;base64,AAAA''"

definition jane :: "rat option \<Rightarrow> employee" where
  "jane c = \<lparr>employee_name = ''Jane Doe'', confidence = c\<rparr>"

definition detecting :: gate where
  "detecting =
     captureFace
       (showCamera_models True
          (showCamera_camera Stream
             (showCamera (Some ClockIn) (page ''Main Street''))))"

definition recognizing :: gate where
  "recognizing = captureFace_captured (Captured face photo) detecting"

definition confirmed :: gate where
  "confirmed = captureFace_recognized (Recognized (jane (Some (82 / 100)))) recognizing"

definition verifying :: gate where
  "verifying = confirmPhotoBtn_click confirmed"

text \<open>The same run once the second recognition has answered and the clock-in call is
  under way.\<close>

definition submitting :: gate where
  "submitting = confirmAndProcess_verified (Recognized (jane (Some (82 / 100)))) verifying"




section \<open>The clock window\<close>

subsection \<open>Auxiliary facts\<close>

lemma midnight_idem: "midnight (midnight t) = midnight t"
  by (simp add: midnight_def msPerDay_def)

lemma hour_min_empty: "hour_min [] = (Some 0, None)"
  by (simp add: hour_min_def Number_def)

lemma clockWindow_numbers:
  assumes "hour_min opening = (Some oh, Some om)"
    and "hour_min closing = (Some ch, Some cm)"
  shows "clockWindow now opening closing =
           (Date (midnight now + oh * msPerHour + (om - 30) * msPerMinute),
            Date (midnight now + ch * msPerHour + (cm + 30) * msPerMinute
                    + (if ch < oh \<or> (ch = oh \<and> cm < om) then msPerDay else 0)))"
  using assms by (auto simp add: clockWindow_def midnight_idem Let_def)

lemma configured_Some:
  assumes "find_store stores sid = Some st"
    and "opening_time st = Some opening" and "closing_time st = Some closing"
    and "opening \<noteq> []" and "closing \<noteq> []"
  shows "configured (find_store stores sid) = Some (st, opening, closing)"
  using assms by simp

lemma loaded_window:
  assumes "configured (find_store stores (storeId s)) = Some (st, opening, closing)"
  shows "storeHours (fetchStoreHours_loaded now now' (Returned stores) s) \<noteq> None"
    and "clockWindowStart (fetchStoreHours_loaded now now' (Returned stores) s)
           = Some (fst (clockWindow now opening closing))"
    and "clockWindowEnd (fetchStoreHours_loaded now now' (Returned stores) s)
           = Some (snd (clockWindow now opening closing))"
  using assms
  by (simp_all add: fetchStoreHours_loaded_def updateClockButtonsState_def updateStatus_def
        set_buttons_def split: prod.splits)


lemma update_buttons_keeps:
  "storeHours (updateClockButtonsState t s) = storeHours s"
  "clockWindowStart (updateClockButtonsState t s) = clockWindowStart s"
  "clockWindowEnd (updateClockButtonsState t s) = clockWindowEnd s"
  by (simp_all add: updateClockButtonsState_def updateStatus_def set_buttons_def
        split: option.splits)

lemma update_buttons_open:
  assumes "storeHours s = None"
  shows "clockInBtn_disabled (updateClockButtonsState t s) = False"
    and "clockOutBtn_disabled (updateClockButtonsState t s) = False"
  using assms
  by (simp_all add: updateClockButtonsState_def set_buttons_def)


lemma hour_min_nonempty: "hour_min t = (Some h, Some m) \<Longrightarrow> t \<noteq> []"
  by (auto simp add: hour_min_empty)

subsection \<open>Overnight stores\<close>

text \<open>
  Claim C4. When the closing time of the store is strictly earlier in the day than its
  opening time, the end of the window is moved to the next calendar day: the window runs
  from 30 minutes before the opening time of today to 30 minutes after the closing time
  of tomorrow, and its start is not after its end. For 22:00 and 02:00 (the witness) that
  is 21:30 today to 02:30 tomorrow.
\<close>

theorem overnight_window:
  assumes "find_store stores (storeId s) = Some st"
    and "opening_time st = Some opening" and "closing_time st = Some closing"
    and "hour_min opening = (Some oh, Some om)" and "hhmm oh om"
    and "hour_min closing = (Some ch, Some cm)" and "hhmm ch cm"
    and "ch * 60 + cm < oh * 60 + om"
  shows "\<exists>ws we. clockWindowStart (fetchStoreHours_loaded now now' (Returned stores) s) = Some (Date ws)
           \<and> clockWindowEnd (fetchStoreHours_loaded now now' (Returned stores) s) = Some (Date we)
           \<and> ws = wall (midnight now) oh om - 30 * msPerMinute
           \<and> we = wall (midnight now + msPerDay) ch cm + 30 * msPerMinute
           \<and> ws \<le> we"
proof -
  have cfg: "configured (find_store stores (storeId s)) = Some (st, opening, closing)"
    using assms(1-4,6) by (intro configured_Some hour_min_nonempty)
  have night: "ch < oh \<or> (ch = oh \<and> cm < om)"
    using assms(5,7,8) by (auto simp add: hhmm_def)
  have w: "clockWindow now opening closing =
             (Date (wall (midnight now) oh om - 30 * msPerMinute),
              Date (wall (midnight now + msPerDay) ch cm + 30 * msPerMinute))"
    using night by (simp add: clockWindow_numbers [OF assms(4,6)] wall_def algebra_simps)
  have le: "wall (midnight now) oh om - 30 * msPerMinute
              \<le> wall (midnight now + msPerDay) ch cm + 30 * msPerMinute"
    using assms(5,7) by (simp add: hhmm_def wall_def msPerHour_def msPerMinute_def msPerDay_def)
  show ?thesis
    using le by (simp add: loaded_window [OF cfg] w)
qed


theorem overnight_window_witness:
  "clockWindowStart (fetchStoreHours_loaded 1762160400000 1762160400002
       (Returned [shop (Some ''22:00'') (Some ''02:00'')]) (page ''Main Street''))
     = Some (Date (1762128000000 + 21 * 3600000 + 30 * 60000))
   \<and> clockWindowEnd (fetchStoreHours_loaded 1762160400000 1762160400002
       (Returned [shop (Some ''22:00'') (Some ''02:00'')]) (page ''Main Street''))
     = Some (Date (1762128000000 + 86400000 + 2 * 3600000 + 30 * 60000))"
  using overnight_window [of "[shop (Some ''22:00'') (Some ''02:00'')]" "page ''Main Street''"
      "shop (Some ''22:00'') (Some ''02:00'')" "''22:00''" "''02:00''" 22 0 2 0
      1762160400000 1762160400002]
  by (simp add: shop_def page_def hour_min_def Number_def digit_def hhmm_def wall_def
        midnight_def msPerDay_def msPerHour_def msPerMinute_def)


subsection \<open>Stores that close on the day they open\<close>








subsection \<open>Opening and closing at the same minute\<close>

text \<open>
  Claim C10. When the opening and the closing time are the same hour and minute, the end
  is not moved to the next day: the window runs from 30 minutes before to 30 minutes
  after that time on the same day, one hour in all.
\<close>

theorem equal_times_window:
  assumes "find_store stores (storeId s) = Some st"
    and "opening_time st = Some opening" and "closing_time st = Some closing"
    and "hour_min opening = (Some h, Some m)"
    and "hour_min closing = (Some h, Some m)"
    and "s' = fetchStoreHours_loaded now now' (Returned stores) s"
  shows "clockWindowStart s' = Some (Date (wall (midnight now) h m - 30 * msPerMinute))
         \<and> clockWindowEnd s' = Some (Date (wall (midnight now) h m + 30 * msPerMinute))
         \<and> (wall (midnight now) h m + 30 * msPerMinute)
             - (wall (midnight now) h m - 30 * msPerMinute) = msPerHour"
proof -
  have cfg: "configured (find_store stores (storeId s)) = Some (st, opening, closing)"
    using assms(1-5) by (intro configured_Some hour_min_nonempty)
  have w: "clockWindow now opening closing =
             (Date (wall (midnight now) h m - 30 * msPerMinute),
              Date (wall (midnight now) h m + 30 * msPerMinute))"
    by (simp add: clockWindow_numbers [OF assms(4,5)] wall_def algebra_simps)
  show ?thesis
    by (simp add: assms(6) loaded_window [OF cfg] w msPerHour_def msPerMinute_def)
qed

theorem equal_times_window_witness:
  "clockWindowStart (fetchStoreHours_loaded 1762160400000 1762160400002
       (Returned [shop (Some ''09:00'') (Some ''09:00'')]) (page ''Main Street''))
     = Some (Date (1762128000000 + 8 * 3600000 + 30 * 60000))
   \<and> clockWindowEnd (fetchStoreHours_loaded 1762160400000 1762160400002
       (Returned [shop (Some ''09:00'') (Some ''09:00'')]) (page ''Main Street''))
     = Some (Date (1762128000000 + 9 * 3600000 + 30 * 60000))"
  using equal_times_window [of "[shop (Some ''09:00'') (Some ''09:00'')]" "page ''Main Street''"
      "shop (Some ''09:00'') (Some ''09:00'')" "''09:00''" "''09:00''" 9 0 _
      1762160400000 1762160400002]
  by (simp add: shop_def page_def hour_min_def Number_def digit_def wall_def
        midnight_def msPerDay_def msPerHour_def msPerMinute_def)

subsection \<open>No hours, and a failed fetch\<close>

lemma loaded_closed:
  assumes "resp = Threw e \<or> (resp = Returned stores
             \<and> configured (find_store stores (storeId s)) = None)"
  shows "storeHours (fetchStoreHours_loaded now now' resp s) = None"
  using assms
  by (auto simp add: fetchStoreHours_loaded_def update_buttons_keeps)

text \<open>
  Claim C6. When the fetch of the stores fails, when the store is not in the answer, or
  when its opening or closing time is missing, both clock buttons are enabled when the
  answer is handled and stay enabled at every later update, whatever the time.
\<close>

theorem no_hours_always_open:
  assumes "resp = Threw e
           \<or> (resp = Returned stores \<and> find_store stores (storeId s) = None)
           \<or> (resp = Returned stores \<and> find_store stores (storeId s) = Some st
                \<and> (opening_time st = None \<or> closing_time st = None))"
    and "s' = fetchStoreHours_loaded now now' resp s"
  shows "\<not> clockInBtn_disabled s' \<and> \<not> clockOutBtn_disabled s'
         \<and> \<not> clockInBtn_disabled (updateClockButtonsState t s')
         \<and> \<not> clockOutBtn_disabled (updateClockButtonsState t s')"
proof -
  have cfg: "resp = Threw e \<or> (resp = Returned stores
               \<and> configured (find_store stores (storeId s)) = None)"
    using assms(1) by (auto split: option.splits)
  have none: "storeHours s' = None"
    unfolding assms(2) by (rule loaded_closed [OF cfg])
  have first: "\<not> clockInBtn_disabled s'" "\<not> clockOutBtn_disabled s'"
    using cfg by (auto simp add: assms(2) fetchStoreHours_loaded_def update_buttons_open)
  show ?thesis
    using first by (simp add: update_buttons_open [OF none])
qed


theorem no_hours_always_open_witness:
  "\<not> clockInBtn_disabled (updateClockButtonsState 1762128000000
        (fetchStoreHours_loaded 1762160400000 1762160400002
           (Returned [shop None (Some ''21:00'')]) (page ''Main Street'')))
   \<and> \<not> clockOutBtn_disabled (updateClockButtonsState 1762128000000
        (fetchStoreHours_loaded 1762160400000 1762160400002
           (Returned [shop None (Some ''21:00'')]) (page ''Main Street'')))"
proof -
  have f: "find_store [shop None (Some ''21:00'')] (storeId (page ''Main Street''))
             = Some (shop None (Some ''21:00''))"
    by (simp add: shop_def page_def)
  have o: "opening_time (shop None (Some ''21:00'')) = None"
    by (simp add: shop_def)
  have h: "Returned [shop None (Some ''21:00'')] = Threw []
           \<or> (Returned [shop None (Some ''21:00'')] = Returned [shop None (Some ''21:00'')]
                \<and> find_store [shop None (Some ''21:00'')] (storeId (page ''Main Street'')) = None)
           \<or> (Returned [shop None (Some ''21:00'')] = Returned [shop None (Some ''21:00'')]
                \<and> find_store [shop None (Some ''21:00'')] (storeId (page ''Main Street''))
                    = Some (shop None (Some ''21:00''))
                \<and> (opening_time (shop None (Some ''21:00'')) = None
                     \<or> closing_time (shop None (Some ''21:00'')) = None))"
    using f o by simp
  show ?thesis
    using no_hours_always_open [OF h refl, of 1762160400000 1762160400002 1762128000000]
    by simp
qed


section \<open>The attendance gate\<close>

lemmas seg_defs = issue_def showDialog_def showLoading_def updateStatus_def set_confirm_def
  set_result_def

lemmas handler_defs = captureFace_def captureFace_captured_def captureFace_recognized_def
  showCamera_def showCamera_camera_def showCamera_models_def confirmPhotoBtn_click_def
  confirmAndProcess_def confirmAndProcess_verified_def MIN_CONFIDENCE_def

subsection \<open>The confidence threshold\<close>

text \<open>
  Claim C1. After a recognition answer that carries the confidence \<open>c\<close>, the confirm
  button is disabled exactly when \<open>c < 0.30\<close>, as it is after an answer with no match;
  at \<open>c = 0.30\<close> it is enabled. A click on the button starts the submission only in the
  enabled case.
\<close>

theorem threshold_gate:
  "confirmPhotoBtn_disabled (captureFace_recognized (Recognized \<lparr>employee_name = n, confidence = Some c\<rparr>) s)
     = (c < 3 / 10)
   \<and> confirmPhotoBtn_disabled (captureFace_recognized (NotRecognized e) s)
   \<and> \<not> confirmPhotoBtn_disabled
         (captureFace_recognized (Recognized \<lparr>employee_name = n, confidence = Some (3 / 10)\<rparr>) s)
   \<and> confirmPhotoBtn_click
         (captureFace_recognized (Recognized \<lparr>employee_name = n, confidence = Some c\<rparr>) s)
       = (if c < 3 / 10
          then captureFace_recognized (Recognized \<lparr>employee_name = n, confidence = Some c\<rparr>) s
          else confirmAndProcess
                 (captureFace_recognized (Recognized \<lparr>employee_name = n, confidence = Some c\<rparr>) s))"
  by (simp add: captureFace_recognized_def confirmPhotoBtn_click_def MIN_CONFIDENCE_def seg_defs)

theorem threshold_gate_witness:
  "\<not> confirmPhotoBtn_disabled
       (captureFace_recognized (Recognized (jane (Some (3 / 10)))) recognizing)
   \<and> confirmPhotoBtn_disabled
       (captureFace_recognized (Recognized (jane (Some (29 / 100)))) recognizing)"
  using threshold_gate [of "''Jane Doe''" "3 / 10" recognizing "''none''"]
    threshold_gate [of "''Jane Doe''" "29 / 100" recognizing "''none''"]
  by (simp add: jane_def)

text \<open>
  Claim C9. A recognition answer that reports a match and carries no confidence is
  handled with confidence 0: the confirm button is disabled and the panel shows a low
  confidence, after the first recognition and after the recognition that follows the
  adding of an appearance.
\<close>

theorem absent_confidence_disabled:
  "confirmPhotoBtn_disabled
     (captureFace_recognized (Recognized \<lparr>employee_name = n, confidence = None\<rparr>) s)
   \<and> confirmPhotoBtn_disabled
       (addAppearance_retried (Recognized \<lparr>employee_name = n, confidence = None\<rparr>) s)
   \<and> recognitionResult
       (captureFace_recognized (Recognized \<lparr>employee_name = n, confidence = None\<rparr>) s)
       = LowConfidenceMatch n 0
   \<and> recognitionResult
       (addAppearance_retried (Recognized \<lparr>employee_name = n, confidence = None\<rparr>) s)
       = StillLowConfidence 0"
  by (simp add: captureFace_recognized_def addAppearance_retried_def MIN_CONFIDENCE_def seg_defs)

theorem absent_confidence_disabled_witness:
  "confirmPhotoBtn_disabled (captureFace_recognized (Recognized (jane None)) recognizing)
   \<and> confirmPhotoBtn_disabled (addAppearance_retried (Recognized (jane None)) recognizing)"
  using absent_confidence_disabled [of "''Jane Doe''" recognizing]
  by (simp add: jane_def)

subsection \<open>The check before the submission\<close>

text \<open>The check is made with the captured descriptor; when it fails nothing is sent and
  the sample is kept; when it succeeds the clock call goes out, whatever the employee
  record of the answer holds.\<close>

lemma reverify_same_descriptor:
  assumes "capturedData s = Some cd"
  shows "requests (confirmAndProcess s) = requests s @ [RecognizeFace (descriptor cd) (storeId s)]"
  using assms by (simp add: confirmAndProcess_def seg_defs)

lemma reverify_failure_aborts:
  "requests (confirmAndProcess_verified (NotRecognized e) s) = requests s"
  "dialogs (confirmAndProcess_verified (NotRecognized e) s) = dialogs s @ [VerificationFailed]"
  "capturedData (confirmAndProcess_verified (NotRecognized e) s) = capturedData s"
  by (simp_all add: confirmAndProcess_verified_def seg_defs)

lemma reverify_success_submits:
  assumes "capturedData s = Some cd" and "currentAction s = Some a"
  shows "requests (confirmAndProcess_verified (Recognized e) s) =
           requests s @ [case a of
                           ClockIn \<Rightarrow> ClockInWithFace (descriptor cd) (imageDataUrl cd) (storeId s)
                         | ClockOut \<Rightarrow> ClockOutWithFace (descriptor cd) (imageDataUrl cd) (storeId s)]"
  using assms by (simp add: confirmAndProcess_verified_def seg_defs)

text \<open>
  Claim C2. \<^verbatim>\<open>confirmAndProcess\<close> sends the captured descriptor to the recognition
  again, and stops when that call fails. It does not look at the confidence of the
  answer: in the run below the second recognition answers with confidence 0.10, which
  disables the confirm button when it is the first answer, and the clock-in call is
  issued all the same, with no dialog.
\<close>

theorem reverify_ignores_threshold:
  "confirmPhotoBtn_disabled
      (captureFace_recognized (Recognized (jane (Some (1 / 10)))) recognizing)
   \<and> requests (confirmAndProcess_verified (Recognized (jane (Some (1 / 10)))) verifying)
       = requests verifying @ [ClockInWithFace face photo ''Main Street'']
   \<and> dialogs (confirmAndProcess_verified (Recognized (jane (Some (1 / 10)))) verifying) = []"
  by (simp add: submitting_def verifying_def confirmed_def recognizing_def detecting_def jane_def
        page_def face_def photo_def handler_defs seg_defs)

subsection \<open>Cancelling\<close>










subsection \<open>A rejected submission\<close>

text \<open>
  Claim C7, as the code has it. When the clock call is rejected, the stores are fetched
  again at once, whatever the error code is; the code only chooses the title of the
  dialog. That fetch is the only call issued, and the sample, the pending action and
  the confirm button stay as they were.
\<close>

theorem rejection_refreshes_hours:
  "requests (confirmAndProcess_result (Rejected err code meta) s) = requests s @ [GetStores]
   \<and> capturedData (confirmAndProcess_result (Rejected err code meta) s) = capturedData s
   \<and> currentAction (confirmAndProcess_result (Rejected err code meta) s) = currentAction s
   \<and> confirmPhotoBtn_disabled (confirmAndProcess_result (Rejected err code meta) s)
       = confirmPhotoBtn_disabled s"
  by (simp add: confirmAndProcess_result_def failed_def fetchStoreHours_def seg_defs Let_def)

theorem rejection_refreshes_hours_witness:
  "requests (confirmAndProcess_result
       (Rejected (Some ''Outside the clock window'') (Some ''OUTSIDE_CLOCK_WINDOW'') None)
       submitting)
     = requests submitting @ [GetStores]
   \<and> capturedData (confirmAndProcess_result
       (Rejected (Some ''Outside the clock window'') (Some ''OUTSIDE_CLOCK_WINDOW'') None)
       submitting)
     = capturedData submitting"
  using rejection_refreshes_hours [of "Some ''Outside the clock window''"
      "Some ''OUTSIDE_CLOCK_WINDOW''" None submitting]
  by simp

text \<open>The claim as stated fails: a rejection with a code that is neither of the two
  window codes refreshes the store hours too.\<close>

theorem other_rejection_refreshes:
  "requests (confirmAndProcess_result
       (Rejected (Some ''Employee is already clocked in'') (Some ''ALREADY_CLOCKED_IN'') None)
       submitting)
     = requests submitting @ [GetStores]
   \<and> ''ALREADY_CLOCKED_IN'' \<noteq> ''OUTSIDE_CLOCK_WINDOW''
   \<and> ''ALREADY_CLOCKED_IN'' \<noteq> ''STORE_CLOSED_LOGIN''"
  by (simp add: confirmAndProcess_result_def failed_def fetchStoreHours_def seg_defs Let_def)

subsection \<open>Adding an appearance\<close>









end
